theory Spec2Isabelle
  imports Main
begin

section \<open>Values that travel through the store\<close>

text \<open>
  A keyboard handle (\<open>IKeyboard\<close>) is a class instance. The reducer compares handles with
  \<open>==\<close> and \<open>!=\<close>, which on objects is identity, so a handle is its address. What a handle
  answers (\<open>isOpened\<close>, \<open>isSameDevice\<close>, the fetches) lives in the device collaborator below.
\<close>

type_synonym handle = nat

text \<open>
  \<open>IKeymap\<close>, \<open>IKeymaps\<close>, \<open>Key\<close> and the keycode table are declared in files that are not
  among the sources. The reducer and the workflows only move such values around, so a key
  binding is a token and a layer's keymap is an object from position to binding.
\<close>

type_synonym ikeymap = nat
type_synonym ikeymaps = "(string \<times> ikeymap) list"
type_synonym key = nat
type_synonym keycode_table = nat

text \<open>
  Modelled from the spec: \<open>SetupPhase\<close> of store/state.ts, which is not among the sources.
  The spec's state machine names these phases; the workflows use the last three.
\<close>

datatype setup_phase = idle | keyboardNotSelected | fetchingKeyboardDefinition | openedKeyboard

record matrix_size =
  rows :: int
  cols :: int

record keyboard_definition =
  matrix :: matrix_size
  definition_name :: string

record keyboard_information =
  vendorId :: int
  productId :: int

text \<open>
  A result object of the device collaborator: \<open>{success, keyboard?}\<close>,
  \<open>{success, layerCount?}\<close>, \<open>{success, keymap?}\<close>, \<open>{success}\<close>. The optional member is
  \<open>None\<close> when it is \<open>undefined\<close>; the source reads it with a non-null assertion, which
  checks nothing at run time.
\<close>

datatype 'a result = Result (success: bool) (member: "'a option")

section \<open>Action descriptors\<close>

text \<open>
  \<open>type Action = { type: string; value: any }\<close>; the member \<open>value\<close> is \<open>val\<close> here. The
  payload is one of the shapes the action creators build; \<open>Undefined\<close> is the missing
  payload of a foreign action.
\<close>

text \<open>
  \<open>TypeError\<close> is the exception JavaScript throws on a member access on \<open>undefined\<close> or
  \<open>null\<close>. \<open>IllShapedPayload\<close> marks a tag that arrives with a payload of another shape
  than its action creator builds: the state types cannot hold what JavaScript would store
  there, and the model says so instead of inventing a value.
\<close>

datatype error = TypeError | IllShapedPayload

text \<open>
  The remap table of one layer and the macro table are objects used as dictionaries.
\<close>

type_synonym remap = "string \<rightharpoonup> ikeymap"

datatype payload =
    Undefined
  | KeyboardV handle
  | LayerCountV "int option"
  | KeyboardsV "handle list"
  | KeymapsV "ikeymaps option list"
  | DefinitionV "keyboard_definition option"
  | PhaseV setup_phase
  | RemapsV "remap list"
  | RemapKeyV int string ikeymap
  | RemapPosV int string
  | PackageV string string
  | NumV int
  | StrV string
  | BoolV bool
  | MacroV int string
  | KeysV keycode_table
  | KeyV "key option"
  | KeydiffV "ikeymap option" "ikeymap option"

datatype action = Action (type: string) (val: payload)

subsection \<open>hid.action.ts: tags and action creators\<close>

text \<open>
  The creator \<open>hidActions.connectKeyboard\<close> is \<open>connectKeyboardAction\<close> here; the name
  \<open>connectKeyboard\<close> is the workflow's.
\<close>

definition HID_ACTIONS :: string where
  "HID_ACTIONS = ''@Hid''"

definition HID_CONNECT_KEYBOARD :: string where
  "HID_CONNECT_KEYBOARD = HID_ACTIONS @ ''/ConnectDevice''"

definition HID_DISCONNECT_KEYBOARD :: string where
  "HID_DISCONNECT_KEYBOARD = HID_ACTIONS @ ''/DisconnectDevice''"

definition HID_UPDATE_KEYBOARD :: string where
  "HID_UPDATE_KEYBOARD = HID_ACTIONS @ ''/UpdateKeyboard''"

definition HID_UPDATE_KEYBOARD_LAYER_COUNT :: string where
  "HID_UPDATE_KEYBOARD_LAYER_COUNT = HID_ACTIONS @ ''/UpdateKeyboardLayerCount''"

definition HID_UPDATE_KEYBOARD_LIST :: string where
  "HID_UPDATE_KEYBOARD_LIST = HID_ACTIONS @ ''/UpdateKeyboardList''"

definition HID_UPDATE_KEYMAPS :: string where
  "HID_UPDATE_KEYMAPS = HID_ACTIONS @ ''/UpdateKeymaps''"

definition HID_OPEN_KEYBOARD :: string where
  "HID_OPEN_KEYBOARD = HID_ACTIONS @ ''/OpenKeyboard''"

definition connectKeyboardAction :: "handle \<Rightarrow> action" where
  "connectKeyboardAction keyboard = Action HID_CONNECT_KEYBOARD (KeyboardV keyboard)"

definition disconnectKeyboard :: "handle \<Rightarrow> action" where
  "disconnectKeyboard keyboard = Action HID_DISCONNECT_KEYBOARD (KeyboardV keyboard)"

definition updateKeyboard :: "handle \<Rightarrow> action" where
  "updateKeyboard keyboard = Action HID_UPDATE_KEYBOARD (KeyboardV keyboard)"

definition updateKeyboardLayerCount :: "int option \<Rightarrow> action" where
  "updateKeyboardLayerCount layerCount =
     Action HID_UPDATE_KEYBOARD_LAYER_COUNT (LayerCountV layerCount)"

definition updateKeyboardList :: "handle list \<Rightarrow> action" where
  "updateKeyboardList keyboards = Action HID_UPDATE_KEYBOARD_LIST (KeyboardsV keyboards)"

definition updateKeymaps :: "ikeymaps option list \<Rightarrow> action" where
  "updateKeymaps keymaps = Action HID_UPDATE_KEYMAPS (KeymapsV keymaps)"

section \<open>The state tree\<close>

text \<open>
  \<open>RootState\<close> is declared in store/state.ts, which is not among the sources. The record
  below has every member that the reducer writes or a workflow reads, under the path the
  source uses (\<open>draft.entities.device.layerCount\<close> is
  \<open>layerCount (device (entities s))\<close>). The top-level member \<open>keyboards\<close> is called
  \<open>keyboardsUi\<close> here, since \<open>entities.keyboards\<close> already has the name; the member
  \<open>instance\<close> of \<open>hid\<close> and \<open>storage\<close> is \<open>service_instance\<close>, a service object kept by
  address.
\<close>

record notification_item =
  key :: string
  kind :: string
  message :: string

record device_state =
  layerCount :: "int option"
  keymaps :: "ikeymaps option list"
  macros :: "int \<rightharpoonup> string"

record entities_state =
  keyboards :: "handle list"
  keyboard :: "handle option"
  device :: device_state
  keyboardDefinition :: "keyboard_definition option"

record package_state =
  name :: string
  version :: string

record app_state =
  setupPhase :: setup_phase
  remaps :: "remap list"
  package :: package_state
  notifications :: "notification_item list"

record keyboards_state =
  selectedPos :: string
  selectedLayer :: int

record keycodes_state =
  category :: string
  keys :: keycode_table

record keycodeKey_state =
  draggingKey :: "key option"
  selectedKey :: "key option"
  hoverKey :: "key option"

record keydiff_state =
  origin :: "ikeymap option"
  destination :: "ikeymap option"

record header_state =
  flushLoading :: bool

record keyboardDefinitionForm_state =
  dragging :: bool

record service_state =
  service_instance :: nat

record root_state =
  entities :: entities_state
  app :: app_state
  keyboardsUi :: keyboards_state
  keycodes :: keycodes_state
  keycodeKey :: keycodeKey_state
  keydiff :: keydiff_state
  header :: header_state
  keyboardDefinitionForm :: keyboardDefinitionForm_state
  hid :: service_state
  storage :: service_state

section \<open>Tags of the other action modules\<close>

text \<open>
  The reducer imports these constants from actions/actions.ts and actions/storage.action.ts.
  Neither file is among the sources, so the table of their values is a parameter of the
  reducer: every theorem below that quantifies over \<open>T\<close> holds whatever the strings are.
\<close>

record tags =
  HEADER_ACTIONS :: string
  HEADER_UPDATE_FLUSH_LOADING :: string
  KEYCODES_ACTIONS :: string
  KEYCODES_UPDATE_CATEGORY :: string
  KEYCODES_UPDATE_MACRO :: string
  KEYCODES_LOAD_KEYCODE_INFO_FOR_ALL_CATEGORIES :: string
  KEYBOARDS_ACTIONS :: string
  KEYBOARDS_CLEAR_SELECTED_POS :: string
  KEYBOARDS_UPDATE_SELECTED_LAYER :: string
  KEYBOARDS_UPDATE_SELECTED_POS :: string
  KEYCODEKEY_ACTIONS :: string
  KEYCODEKEY_UPDATE_DRAGGING_KEY :: string
  KEYCODEKEY_UPDATE_SELECTED_KEY :: string
  KEYCODEKEY_UPDATE_HOVER_KEY :: string
  KEYDIFF_ACTIONS :: string
  KEYDIFF_UPDATE_KEYDIFF :: string
  KEYDIFF_CLEAR_KEYDIFF :: string
  NOTIFICATION_ACTIONS :: string
  NOTIFICATION_ADD_ERROR :: string
  NOTIFICATION_ADD_WARN :: string
  NOTIFICATION_ADD_INFO :: string
  NOTIFICATION_ADD_SUCCESS :: string
  NOTIFICATION_REMOVE :: string
  APP_ACTIONS :: string
  APP_UPDATE_SETUP_PHASE :: string
  APP_REMAPS_INIT :: string
  APP_REMAPS_SET_KEY :: string
  APP_REMAPS_REMOVE_KEY :: string
  APP_PACKAGE_INIT :: string
  STORAGE_ACTIONS :: string
  STORAGE_UPDATE_KEYBOARD_DEFINITION :: string
  KEYBOARD_DEFINITION_FORM_ACTIONS :: string
  KEYBOARD_DEFINITION_FORM_UPDATE_DRAGGING :: string

section \<open>The reducer\<close>

fun startsWith :: "string \<Rightarrow> string \<Rightarrow> bool" where
  "startsWith s [] = True"
| "startsWith [] (c # p) = False"
| "startsWith (x # s) (c # p) = (x = c \<and> startsWith s p)"

text \<open>
  \<open>Date.now().toString()\<close>: the clock reading is an argument of the reducer, and an integer
  prints in decimal.
\<close>

definition digit :: "nat \<Rightarrow> char" where
  "digit d = ''0123456789'' ! d"

function decimal :: "nat \<Rightarrow> string" where
  "decimal n = (if n < 10 then [digit n] else decimal (n div 10) @ [digit (n mod 10)])"
  by pat_completeness auto
termination
  by (relation "measure id") auto

declare decimal.simps [simp del]

definition toString :: "int \<Rightarrow> string" where
  "toString i = (if i < 0 then CHR ''-'' # decimal (nat (- i)) else decimal (nat i))"

text \<open>
  Each sub-reducer takes the draft and gives the draft back edited, or the exception that
  leaves the recipe. \<open>switch\<close> compares the tag with the cases in the order written.
\<close>

definition keyboardDefinitionFormReducer :: "tags \<Rightarrow> action \<Rightarrow> root_state \<Rightarrow> error + root_state" where
  "keyboardDefinitionFormReducer T action draft =
     (if type action = KEYBOARD_DEFINITION_FORM_UPDATE_DRAGGING T then
        (case val action of
           BoolV b \<Rightarrow> Inr (draft\<lparr>keyboardDefinitionForm :=
                              (keyboardDefinitionForm draft)\<lparr>dragging := b\<rparr>\<rparr>)
         | _ \<Rightarrow> Inl IllShapedPayload)
      else Inr draft)"

definition storageReducer :: "tags \<Rightarrow> action \<Rightarrow> root_state \<Rightarrow> error + root_state" where
  "storageReducer T action draft =
     (if type action = STORAGE_UPDATE_KEYBOARD_DEFINITION T then
        (case val action of
           DefinitionV d \<Rightarrow> Inr (draft\<lparr>entities := (entities draft)\<lparr>keyboardDefinition := d\<rparr>\<rparr>)
         | _ \<Rightarrow> Inl IllShapedPayload)
      else Inr draft)"

definition appReducer :: "tags \<Rightarrow> action \<Rightarrow> root_state \<Rightarrow> error + root_state" where
  "appReducer T action draft =
     (if type action = APP_UPDATE_SETUP_PHASE T then
        (case val action of
           PhaseV p \<Rightarrow> Inr (draft\<lparr>app := (app draft)\<lparr>setupPhase := p\<rparr>\<rparr>)
         | _ \<Rightarrow> Inl IllShapedPayload)
      else if type action = APP_REMAPS_INIT T then
        (case val action of
           RemapsV r \<Rightarrow> Inr (draft\<lparr>app := (app draft)\<lparr>remaps := r\<rparr>\<rparr>)
         | _ \<Rightarrow> Inl IllShapedPayload)
      else if type action = APP_REMAPS_SET_KEY T then
        (case val action of
           RemapKeyV layer pos keymap \<Rightarrow>
             (if 0 \<le> layer \<and> layer < int (length (remaps (app draft))) then
                Inr (draft\<lparr>app := (app draft)\<lparr>remaps :=
                  (remaps (app draft))[nat layer :=
                     (remaps (app draft) ! nat layer)(pos \<mapsto> keymap)]\<rparr>\<rparr>)
              else Inl TypeError)
         | Undefined \<Rightarrow> Inl TypeError
         | _ \<Rightarrow> Inl IllShapedPayload)
      else if type action = APP_REMAPS_REMOVE_KEY T then
        (case val action of
           RemapPosV layer pos \<Rightarrow>
             (if 0 \<le> layer \<and> layer < int (length (remaps (app draft))) then
                Inr (draft\<lparr>app := (app draft)\<lparr>remaps :=
                  (remaps (app draft))[nat layer :=
                     (remaps (app draft) ! nat layer)(pos := None)]\<rparr>\<rparr>)
              else Inl TypeError)
         | Undefined \<Rightarrow> Inl TypeError
         | _ \<Rightarrow> Inl IllShapedPayload)
      else if type action = APP_PACKAGE_INIT T then
        (case val action of
           PackageV n v \<Rightarrow>
             Inr (draft\<lparr>app := (app draft)\<lparr>package :=
                    (package (app draft))\<lparr>name := n, version := v\<rparr>\<rparr>\<rparr>)
         | Undefined \<Rightarrow> Inl TypeError
         | _ \<Rightarrow> Inl IllShapedPayload)
      else Inr draft)"

text \<open>
  In \<open>HID_DISCONNECT_KEYBOARD\<close> the source calls \<open>filter\<close> on the list and drops the array
  it returns: \<open>filter\<close> does not edit its receiver, so the list stays as it is.
\<close>

definition hidReducer :: "action \<Rightarrow> root_state \<Rightarrow> error + root_state" where
  "hidReducer action draft =
     (if type action = HID_CONNECT_KEYBOARD then
        (case val action of
           KeyboardV kbd \<Rightarrow>
             Inr (draft\<lparr>entities := (entities draft)\<lparr>keyboards :=
                    keyboards (entities draft) @ [kbd]\<rparr>\<rparr>)
         | Undefined \<Rightarrow> Inl TypeError
         | _ \<Rightarrow> Inl IllShapedPayload)
      else if type action = HID_DISCONNECT_KEYBOARD then
        (case val action of
           KeyboardV kbd \<Rightarrow>
             (let dropped = filter (\<lambda>item. item \<noteq> kbd) (keyboards (entities draft))
              in if keyboard (entities draft) = Some kbd
                 then Inr (draft\<lparr>entities := (entities draft)\<lparr>keyboard := None\<rparr>\<rparr>)
                 else Inr draft)
         | Undefined \<Rightarrow> Inl TypeError
         | _ \<Rightarrow> Inl IllShapedPayload)
      else if type action = HID_UPDATE_KEYBOARD then
        (case val action of
           KeyboardV kbd \<Rightarrow>
             Inr (draft\<lparr>entities := (entities draft)\<lparr>keyboard := Some kbd\<rparr>\<rparr>)
         | Undefined \<Rightarrow> Inl TypeError
         | _ \<Rightarrow> Inl IllShapedPayload)
      else if type action = HID_UPDATE_KEYBOARD_LAYER_COUNT then
        (case val action of
           LayerCountV n \<Rightarrow>
             Inr (draft\<lparr>entities := (entities draft)\<lparr>device :=
                    (device (entities draft))\<lparr>layerCount := n\<rparr>\<rparr>\<rparr>)
         | Undefined \<Rightarrow> Inl TypeError
         | _ \<Rightarrow> Inl IllShapedPayload)
      else if type action = HID_UPDATE_KEYBOARD_LIST then
        (case val action of
           KeyboardsV ks \<Rightarrow> Inr (draft\<lparr>entities := (entities draft)\<lparr>keyboards := ks\<rparr>\<rparr>)
         | Undefined \<Rightarrow> Inl TypeError
         | _ \<Rightarrow> Inl IllShapedPayload)
      else if type action = HID_UPDATE_KEYMAPS then
        (case val action of
           KeymapsV ms \<Rightarrow>
             Inr (draft\<lparr>entities := (entities draft)\<lparr>device :=
                    (device (entities draft))\<lparr>keymaps := ms\<rparr>\<rparr>\<rparr>)
         | Undefined \<Rightarrow> Inl TypeError
         | _ \<Rightarrow> Inl IllShapedPayload)
      else Inr draft)"

definition keyboardsReducer :: "tags \<Rightarrow> action \<Rightarrow> root_state \<Rightarrow> error + root_state" where
  "keyboardsReducer T action draft =
     (if type action = KEYBOARDS_CLEAR_SELECTED_POS T then
        Inr (draft\<lparr>keyboardsUi := (keyboardsUi draft)\<lparr>selectedPos := []\<rparr>\<rparr>)
      else if type action = KEYBOARDS_UPDATE_SELECTED_LAYER T then
        (case val action of
           NumV n \<Rightarrow> Inr (draft\<lparr>keyboardsUi := (keyboardsUi draft)\<lparr>selectedLayer := n\<rparr>\<rparr>)
         | _ \<Rightarrow> Inl IllShapedPayload)
      else if type action = KEYBOARDS_UPDATE_SELECTED_POS T then
        (case val action of
           StrV p \<Rightarrow> Inr (draft\<lparr>keyboardsUi := (keyboardsUi draft)\<lparr>selectedPos := p\<rparr>\<rparr>)
         | _ \<Rightarrow> Inl IllShapedPayload)
      else Inr draft)"

definition keycodesReducer :: "tags \<Rightarrow> action \<Rightarrow> root_state \<Rightarrow> error + root_state" where
  "keycodesReducer T action draft =
     (if type action = KEYCODES_UPDATE_CATEGORY T then
        (case val action of
           StrV c \<Rightarrow> Inr (draft\<lparr>keycodes := (keycodes draft)\<lparr>category := c\<rparr>\<rparr>)
         | _ \<Rightarrow> Inl IllShapedPayload)
      else if type action = KEYCODES_UPDATE_MACRO T then
        (case val action of
           MacroV code text \<Rightarrow>
             Inr (draft\<lparr>entities := (entities draft)\<lparr>device :=
                    (device (entities draft))\<lparr>macros :=
                       (macros (device (entities draft)))(code \<mapsto> text)\<rparr>\<rparr>\<rparr>)
         | Undefined \<Rightarrow> Inl TypeError
         | _ \<Rightarrow> Inl IllShapedPayload)
      else if type action = KEYCODES_LOAD_KEYCODE_INFO_FOR_ALL_CATEGORIES T then
        (case val action of
           KeysV k \<Rightarrow> Inr (draft\<lparr>keycodes := (keycodes draft)\<lparr>keys := k\<rparr>\<rparr>)
         | _ \<Rightarrow> Inl IllShapedPayload)
      else Inr draft)"

definition keydiffReducer :: "tags \<Rightarrow> action \<Rightarrow> root_state \<Rightarrow> error + root_state" where
  "keydiffReducer T action draft =
     (if type action = KEYDIFF_UPDATE_KEYDIFF T then
        (case val action of
           KeydiffV orig dest \<Rightarrow>
             Inr (draft\<lparr>keydiff := (keydiff draft)\<lparr>origin := orig, destination := dest\<rparr>\<rparr>)
         | Undefined \<Rightarrow> Inl TypeError
         | _ \<Rightarrow> Inl IllShapedPayload)
      else if type action = KEYDIFF_CLEAR_KEYDIFF T then
        Inr (draft\<lparr>keydiff := (keydiff draft)\<lparr>origin := None, destination := None\<rparr>\<rparr>)
      else Inr draft)"

definition keycodekeyReducer :: "tags \<Rightarrow> action \<Rightarrow> root_state \<Rightarrow> error + root_state" where
  "keycodekeyReducer T action draft =
     (if type action = KEYCODEKEY_UPDATE_DRAGGING_KEY T then
        (case val action of
           KeyV k \<Rightarrow> Inr (draft\<lparr>keycodeKey := (keycodeKey draft)\<lparr>draggingKey := k\<rparr>\<rparr>)
         | _ \<Rightarrow> Inl IllShapedPayload)
      else if type action = KEYCODEKEY_UPDATE_SELECTED_KEY T then
        (case val action of
           KeyV k \<Rightarrow> Inr (draft\<lparr>keycodeKey := (keycodeKey draft)\<lparr>selectedKey := k\<rparr>\<rparr>)
         | _ \<Rightarrow> Inl IllShapedPayload)
      else if type action = KEYCODEKEY_UPDATE_HOVER_KEY T then
        (case val action of
           KeyV k \<Rightarrow> Inr (draft\<lparr>keycodeKey := (keycodeKey draft)\<lparr>hoverKey := k\<rparr>\<rparr>)
         | _ \<Rightarrow> Inl IllShapedPayload)
      else Inr draft)"

text \<open>
  The four add cases of \<open>notificationReducer\<close> differ in the type string of the entry only;
  their body is written once, as \<open>addNotification\<close>. An entry's member \<open>type\<close> is \<open>kind\<close> here.
\<close>

definition addNotification :: "int \<Rightarrow> string \<Rightarrow> action \<Rightarrow> root_state \<Rightarrow> error + root_state" where
  "addNotification now k action draft =
     (case val action of
        StrV msg \<Rightarrow>
          Inr (draft\<lparr>app := (app draft)\<lparr>notifications :=
                 notifications (app draft) @
                   [\<lparr>key = toString now, kind = k, message = msg\<rparr>]\<rparr>\<rparr>)
      | _ \<Rightarrow> Inl IllShapedPayload)"

definition notificationReducer :: "tags \<Rightarrow> int \<Rightarrow> action \<Rightarrow> root_state \<Rightarrow> error + root_state" where
  "notificationReducer T now action draft =
     (if type action = NOTIFICATION_ADD_ERROR T then addNotification now ''error'' action draft
      else if type action = NOTIFICATION_ADD_WARN T then addNotification now ''warning'' action draft
      else if type action = NOTIFICATION_ADD_INFO T then addNotification now ''info'' action draft
      else if type action = NOTIFICATION_ADD_SUCCESS T then addNotification now ''success'' action draft
      else if type action = NOTIFICATION_REMOVE T then
        (case val action of
           StrV k \<Rightarrow>
             Inr (draft\<lparr>app := (app draft)\<lparr>notifications :=
                    filter (\<lambda>item. key item \<noteq> k) (notifications (app draft))\<rparr>\<rparr>)
         | _ \<Rightarrow> Inl IllShapedPayload)
      else Inr draft)"

definition headerReducer :: "tags \<Rightarrow> action \<Rightarrow> root_state \<Rightarrow> error + root_state" where
  "headerReducer T action draft =
     (if type action = HEADER_UPDATE_FLUSH_LOADING T then
        (case val action of
           BoolV b \<Rightarrow> Inr (draft\<lparr>header := (header draft)\<lparr>flushLoading := b\<rparr>\<rparr>)
         | _ \<Rightarrow> Inl IllShapedPayload)
      else Inr draft)"

text \<open>
  The top-level reducer: the first namespace prefix that the tag starts with decides the
  sub-reducer; \<open>immer\<close> publishes the edited draft, or passes the exception on and
  publishes nothing. The clock reading \<open>now\<close> is what \<open>Date.now()\<close> answers during this run.
  The default \<open>INIT_STATE\<close> for a missing state is in store/state.ts, outside the sources;
  the state is always given here.
\<close>

definition reducers :: "tags \<Rightarrow> int \<Rightarrow> root_state \<Rightarrow> action \<Rightarrow> error + root_state" where
  "reducers T now state action =
     (if startsWith (type action) HID_ACTIONS then hidReducer action state
      else if startsWith (type action) (HEADER_ACTIONS T) then headerReducer T action state
      else if startsWith (type action) (KEYCODES_ACTIONS T) then keycodesReducer T action state
      else if startsWith (type action) (KEYBOARDS_ACTIONS T) then keyboardsReducer T action state
      else if startsWith (type action) (KEYCODEKEY_ACTIONS T) then keycodekeyReducer T action state
      else if startsWith (type action) (KEYDIFF_ACTIONS T) then keydiffReducer T action state
      else if startsWith (type action) (NOTIFICATION_ACTIONS T) then
        notificationReducer T now action state
      else if startsWith (type action) (APP_ACTIONS T) then appReducer T action state
      else if startsWith (type action) (STORAGE_ACTIONS T) then storageReducer T action state
      else if startsWith (type action) (KEYBOARD_DEFINITION_FORM_ACTIONS T) then
        keyboardDefinitionFormReducer T action state
      else Inr state)"

section \<open>The workflows of hid.action.ts\<close>

text \<open>
  The device collaborator (services/hid) is outside the sources. A workflow sees it through
  the answers of its calls, so the collaborator is a table of answers: \<open>connect\<close> and
  \<open>detectKeyboards\<close> of \<open>hid.instance\<close>, and the methods of each handle. Every promise of
  the collaborator is taken to resolve; within one run no call is repeated with the same
  arguments, except \<open>isSameDevice\<close> on a list that holds one handle twice. Numbers are
  integers: layer counts, layer indices, matrix sizes and vendor and product identifiers.
\<close>

record device_api =
  connect :: "handle result"
  detectKeyboards :: "handle list"
  isOpened :: "handle \<Rightarrow> bool"
  isSameDevice :: "handle \<Rightarrow> handle \<Rightarrow> bool"
  getInformation :: "handle \<Rightarrow> keyboard_information"
  open_keyboard :: "handle \<Rightarrow> unit result"
  fetchLayerCount :: "handle \<Rightarrow> int result"
  fetchKeymaps :: "handle \<Rightarrow> int \<Rightarrow> int \<Rightarrow> int \<Rightarrow> ikeymaps result"

text \<open>
  What a workflow hands to \<open>dispatch\<close>. The creators of hid.action.ts build their
  descriptor (\<open>Plain\<close>); the creators of \<open>AppActions\<close>, \<open>KeyboardsActions\<close>,
  \<open>NotificationActions\<close> and the thunk of \<open>storageActionsThunk\<close> are in files outside the
  sources, so a call to one of them is kept as the call with its arguments.
\<close>

datatype dispatched =
    Plain action
  | UpdateSetupPhase setup_phase
  | AddWarn string
  | AddError string
  | RemapsInit "int option"
  | UpdateSelectedLayer int
  | FetchKeyboardDefinition int int

text \<open>
  A run of a workflow is the sequence of what it does to the outside: each awaited call to
  the collaborator, each dispatch, and the exception that rejects its promise, if any.
  Console output is not recorded.
\<close>

datatype event =
    AwaitConnect
  | AwaitDetectKeyboards
  | AwaitOpen handle
  | AwaitFetchLayerCount handle
  | AwaitFetchKeymaps handle int int int
  | Dispatch dispatched
  | Rejected error

definition already_opened_msg :: string where
  "already_opened_msg = ''This device has already opened by another application''"

text \<open>
  The lines shared by the tails of \<open>connectAnotherKeyboard\<close> and \<open>connectKeyboard\<close>, which
  the source writes out twice: look the device up in the list, append it if it is new,
  make the listed handle (or the new one) current, and ask for the definition.
\<close>

definition connectNotOpened :: "device_api \<Rightarrow> handle list \<Rightarrow> handle \<Rightarrow> event list" where
  "connectNotOpened D kbds kbd =
     (let listedKbd = find (\<lambda>k. isSameDevice D k kbd) kbds;
          targetKbd = (case listedKbd of Some l \<Rightarrow> l | None \<Rightarrow> kbd);
          keyboardInfo = getInformation D kbd
      in (case listedKbd of
            None \<Rightarrow> [Dispatch (Plain (updateKeyboardList (kbds @ [kbd])))]
          | Some l \<Rightarrow> []) @
         [Dispatch (Plain (updateKeyboard targetKbd)),
          Dispatch (UpdateSetupPhase fetchingKeyboardDefinition),
          Dispatch (FetchKeyboardDefinition (vendorId keyboardInfo) (productId keyboardInfo))])"

definition connectAnotherKeyboard :: "device_api \<Rightarrow> root_state \<Rightarrow> event list" where
  "connectAnotherKeyboard D state =
     (let kbds = keyboards (entities state); result = connect D
      in AwaitConnect #
         (if \<not> success result then [Dispatch (UpdateSetupPhase keyboardNotSelected)]
          else case member result of
            None \<Rightarrow> [Rejected TypeError]
          | Some kbd \<Rightarrow>
              if isOpened D kbd then
                (case find (\<lambda>k. isSameDevice D k kbd) kbds of
                   Some l \<Rightarrow> [Dispatch (UpdateSetupPhase openedKeyboard)]
                 | None \<Rightarrow> [Dispatch (AddWarn already_opened_msg)])
              else connectNotOpened D kbds kbd))"

text \<open>
  \<open>entities.keyboard?.isSameDevice(keyboard)\<close> is \<open>undefined\<close>, hence false, when there is no
  current handle.
\<close>

definition connectKeyboard :: "device_api \<Rightarrow> root_state \<Rightarrow> handle \<Rightarrow> event list" where
  "connectKeyboard D state kbd =
     (let kbds = keyboards (entities state)
      in if isOpened D kbd then
           (if (case keyboard (entities state) of
                  None \<Rightarrow> False
                | Some cur \<Rightarrow> isSameDevice D cur kbd)
            then [Dispatch (UpdateSetupPhase openedKeyboard)]
            else [Dispatch (AddWarn already_opened_msg)])
         else connectNotOpened D kbds kbd)"

text \<open>
  The loop of \<open>initOpenedKeyboard\<close>. It gives the fetches it awaited and the array it
  built, or \<open>None\<close> for the array when a fetch failed and the function returned from inside
  the loop. \<open>i < layerCount\<close> is false when \<open>layerCount\<close> is \<open>undefined\<close>.
\<close>

function fetchLoop ::
  "device_api \<Rightarrow> handle \<Rightarrow> int \<Rightarrow> int \<Rightarrow> int option \<Rightarrow> int \<Rightarrow> ikeymaps option list
   \<Rightarrow> event list \<times> ikeymaps option list option" where
  "fetchLoop D kbd rowCount columnCount count i kms =
     (if (case count of None \<Rightarrow> False | Some n \<Rightarrow> i < n) then
        (let keymapsResult = fetchKeymaps D kbd i rowCount columnCount
         in if \<not> success keymapsResult
            then ([AwaitFetchKeymaps kbd i rowCount columnCount], None)
            else (let rest = fetchLoop D kbd rowCount columnCount count (i + 1)
                               (kms @ [member keymapsResult])
                  in (AwaitFetchKeymaps kbd i rowCount columnCount # fst rest, snd rest)))
      else ([], Some kms))"
  by pat_completeness auto
termination
  by (relation "measure (\<lambda>(D, kbd, r, c, count, i, kms).
        case count of None \<Rightarrow> 0 | Some n \<Rightarrow> nat (n - i))")
     (auto split: option.splits)

declare fetchLoop.simps [simp del]

definition initOpenedKeyboard :: "device_api \<Rightarrow> handle \<Rightarrow> int \<Rightarrow> int \<Rightarrow> event list" where
  "initOpenedKeyboard D kbd rowCount columnCount =
     (let layerResult = fetchLayerCount D kbd
      in AwaitFetchLayerCount kbd #
         (if \<not> success layerResult then []
          else (let count = member layerResult;
                    loop = fetchLoop D kbd rowCount columnCount count 0 []
                in fst loop @
                   (case snd loop of
                      None \<Rightarrow> []
                    | Some kms \<Rightarrow>
                        [Dispatch (Plain (updateKeyboardLayerCount count)),
                         Dispatch (Plain (updateKeymaps kms)),
                         Dispatch (RemapsInit count),
                         Dispatch (UpdateSelectedLayer 0),
                         Dispatch (Plain (updateKeyboard kbd))]))))"

text \<open>
  \<open>openKeyboard\<close> reads \<open>entities.keyboard!\<close> and, once the device is open,
  \<open>entities.keyboardDefinition.matrix\<close>; either is a \<open>TypeError\<close> on \<open>null\<close>. The dispatch
  of the phase follows the call of \<open>initOpenedKeyboard\<close> whatever that call did.
\<close>

definition openKeyboard :: "device_api \<Rightarrow> root_state \<Rightarrow> event list" where
  "openKeyboard D state =
     (case keyboard (entities state) of
        None \<Rightarrow> [Rejected TypeError]
      | Some kbd \<Rightarrow>
          AwaitOpen kbd #
          (if \<not> success (open_keyboard D kbd) then [Dispatch (AddError ''Could not open'')]
           else (case keyboardDefinition (entities state) of
                   None \<Rightarrow> [Rejected TypeError]
                 | Some d \<Rightarrow>
                     initOpenedKeyboard D kbd (rows (matrix d)) (cols (matrix d)) @
                     [Dispatch (UpdateSetupPhase openedKeyboard)])))"

definition updateAuthorizedKeyboardList :: "device_api \<Rightarrow> root_state \<Rightarrow> event list" where
  "updateAuthorizedKeyboardList D state =
     [AwaitDetectKeyboards, Dispatch (Plain (updateKeyboardList (detectKeyboards D)))]"

text \<open>The dispatches of a run, in order.\<close>

fun dispatches :: "event list \<Rightarrow> dispatched list" where
  "dispatches [] = []"
| "dispatches (Dispatch d # es) = d # dispatches es"
| "dispatches (e # es) = dispatches es"

section \<open>Reading the reducer\<close>

text \<open>The case labels of the ten \<open>switch\<close> statements, in the order of the source.\<close>

definition case_tags :: "tags \<Rightarrow> string list" where
  "case_tags T =
     [KEYBOARD_DEFINITION_FORM_UPDATE_DRAGGING T,
      STORAGE_UPDATE_KEYBOARD_DEFINITION T,
      APP_UPDATE_SETUP_PHASE T, APP_REMAPS_INIT T, APP_REMAPS_SET_KEY T,
      APP_REMAPS_REMOVE_KEY T, APP_PACKAGE_INIT T,
      HID_CONNECT_KEYBOARD, HID_DISCONNECT_KEYBOARD, HID_UPDATE_KEYBOARD,
      HID_UPDATE_KEYBOARD_LAYER_COUNT, HID_UPDATE_KEYBOARD_LIST, HID_UPDATE_KEYMAPS,
      KEYBOARDS_CLEAR_SELECTED_POS T, KEYBOARDS_UPDATE_SELECTED_LAYER T,
      KEYBOARDS_UPDATE_SELECTED_POS T,
      KEYCODES_UPDATE_CATEGORY T, KEYCODES_UPDATE_MACRO T,
      KEYCODES_LOAD_KEYCODE_INFO_FOR_ALL_CATEGORIES T,
      KEYDIFF_UPDATE_KEYDIFF T, KEYDIFF_CLEAR_KEYDIFF T,
      KEYCODEKEY_UPDATE_DRAGGING_KEY T, KEYCODEKEY_UPDATE_SELECTED_KEY T,
      KEYCODEKEY_UPDATE_HOVER_KEY T,
      NOTIFICATION_ADD_ERROR T, NOTIFICATION_ADD_WARN T, NOTIFICATION_ADD_INFO T,
      NOTIFICATION_ADD_SUCCESS T, NOTIFICATION_REMOVE T,
      HEADER_UPDATE_FLUSH_LOADING T]"

text \<open>The cases that read the clock.\<close>

definition clock_tags :: "tags \<Rightarrow> string list" where
  "clock_tags T =
     [NOTIFICATION_ADD_ERROR T, NOTIFICATION_ADD_WARN T, NOTIFICATION_ADD_INFO T,
      NOTIFICATION_ADD_SUCCESS T]"

text \<open>
  The sub-reducer that the \<open>if\<close> chain of \<open>reducers\<close> picks for a tag: the first namespace,
  in the order of the chain, whose prefix the tag starts with.
\<close>

datatype namespace =
  Hid | Header | Keycodes | Keyboards | KeycodeKey | Keydiff | Notification | App | Storage
  | KeyboardDefinitionForm

definition namespace_of :: "tags \<Rightarrow> string \<Rightarrow> namespace option" where
  "namespace_of T t =
     (if startsWith t HID_ACTIONS then Some Hid
      else if startsWith t (HEADER_ACTIONS T) then Some Header
      else if startsWith t (KEYCODES_ACTIONS T) then Some Keycodes
      else if startsWith t (KEYBOARDS_ACTIONS T) then Some Keyboards
      else if startsWith t (KEYCODEKEY_ACTIONS T) then Some KeycodeKey
      else if startsWith t (KEYDIFF_ACTIONS T) then Some Keydiff
      else if startsWith t (NOTIFICATION_ACTIONS T) then Some Notification
      else if startsWith t (APP_ACTIONS T) then Some App
      else if startsWith t (STORAGE_ACTIONS T) then Some Storage
      else if startsWith t (KEYBOARD_DEFINITION_FORM_ACTIONS T) then Some KeyboardDefinitionForm
      else None)"

text \<open>
  The members that each sub-reducer assigns, read off its cases: \<open>edits_within n s s'\<close> says
  that \<open>s'\<close> is \<open>s\<close> except, at most, in the members that the sub-reducer \<open>n\<close> assigns.
\<close>

fun edits_within :: "namespace option \<Rightarrow> root_state \<Rightarrow> root_state \<Rightarrow> bool" where
  "edits_within None s s' = (s' = s)"
| "edits_within (Some Hid) s s' =
     (s' = s\<lparr>entities := (entities s)\<lparr>
             keyboards := keyboards (entities s'),
             keyboard := keyboard (entities s'),
             device := (device (entities s))\<lparr>
               layerCount := layerCount (device (entities s')),
               keymaps := keymaps (device (entities s'))\<rparr>\<rparr>\<rparr>)"
| "edits_within (Some Header) s s' = (s' = s\<lparr>header := header s'\<rparr>)"
| "edits_within (Some Keycodes) s s' =
     (s' = s\<lparr>keycodes := keycodes s',
            entities := (entities s)\<lparr>device := (device (entities s))\<lparr>
              macros := macros (device (entities s'))\<rparr>\<rparr>\<rparr>)"
| "edits_within (Some Keyboards) s s' = (s' = s\<lparr>keyboardsUi := keyboardsUi s'\<rparr>)"
| "edits_within (Some KeycodeKey) s s' = (s' = s\<lparr>keycodeKey := keycodeKey s'\<rparr>)"
| "edits_within (Some Keydiff) s s' = (s' = s\<lparr>keydiff := keydiff s'\<rparr>)"
| "edits_within (Some Notification) s s' =
     (s' = s\<lparr>app := (app s)\<lparr>notifications := notifications (app s')\<rparr>\<rparr>)"
| "edits_within (Some App) s s' =
     (s' = s\<lparr>app := (app s')\<lparr>notifications := notifications (app s)\<rparr>\<rparr>)"
| "edits_within (Some Storage) s s' =
     (s' = s\<lparr>entities := (entities s)\<lparr>
             keyboardDefinition := keyboardDefinition (entities s')\<rparr>\<rparr>)"
| "edits_within (Some KeyboardDefinitionForm) s s' =
     (s' = s\<lparr>keyboardDefinitionForm := keyboardDefinitionForm s'\<rparr>)"

section \<open>Sample inputs\<close>

text \<open>
  A tag table written after the scheme of hid.action.ts (\<open>@Namespace/Name\<close>), a state with
  two known keyboards, and a collaborator that holds two handles of the device the user
  picks: handles are the same device when they agree in their last digit.
\<close>

definition sample_tags :: tags where
  "sample_tags = \<lparr>
     HEADER_ACTIONS = ''@Header'',
     HEADER_UPDATE_FLUSH_LOADING = ''@Header/UpdateFlushLoading'',
     KEYCODES_ACTIONS = ''@Keycodes'',
     KEYCODES_UPDATE_CATEGORY = ''@Keycodes/UpdateCategory'',
     KEYCODES_UPDATE_MACRO = ''@Keycodes/UpdateMacro'',
     KEYCODES_LOAD_KEYCODE_INFO_FOR_ALL_CATEGORIES = ''@Keycodes/LoadKeycodeInfoForAllCategories'',
     KEYBOARDS_ACTIONS = ''@Keyboards'',
     KEYBOARDS_CLEAR_SELECTED_POS = ''@Keyboards/ClearSelectedPos'',
     KEYBOARDS_UPDATE_SELECTED_LAYER = ''@Keyboards/UpdateSelectedLayer'',
     KEYBOARDS_UPDATE_SELECTED_POS = ''@Keyboards/UpdateSelectedPos'',
     KEYCODEKEY_ACTIONS = ''@KeycodeKey'',
     KEYCODEKEY_UPDATE_DRAGGING_KEY = ''@KeycodeKey/UpdateDraggingKey'',
     KEYCODEKEY_UPDATE_SELECTED_KEY = ''@KeycodeKey/UpdateSelectedKey'',
     KEYCODEKEY_UPDATE_HOVER_KEY = ''@KeycodeKey/UpdateHoverKey'',
     KEYDIFF_ACTIONS = ''@Keydiff'',
     KEYDIFF_UPDATE_KEYDIFF = ''@Keydiff/UpdateKeydiff'',
     KEYDIFF_CLEAR_KEYDIFF = ''@Keydiff/ClearKeydiff'',
     NOTIFICATION_ACTIONS = ''@Notification'',
     NOTIFICATION_ADD_ERROR = ''@Notification/AddError'',
     NOTIFICATION_ADD_WARN = ''@Notification/AddWarn'',
     NOTIFICATION_ADD_INFO = ''@Notification/AddInfo'',
     NOTIFICATION_ADD_SUCCESS = ''@Notification/AddSuccess'',
     NOTIFICATION_REMOVE = ''@Notification/Remove'',
     APP_ACTIONS = ''@App'',
     APP_UPDATE_SETUP_PHASE = ''@App/UpdateSetupPhase'',
     APP_REMAPS_INIT = ''@App/RemapsInit'',
     APP_REMAPS_SET_KEY = ''@App/RemapsSetKey'',
     APP_REMAPS_REMOVE_KEY = ''@App/RemapsRemoveKey'',
     APP_PACKAGE_INIT = ''@App/PackageInit'',
     STORAGE_ACTIONS = ''@Storage'',
     STORAGE_UPDATE_KEYBOARD_DEFINITION = ''@Storage/UpdateKeyboardDefinition'',
     KEYBOARD_DEFINITION_FORM_ACTIONS = ''@KeyboardDefinitionForm'',
     KEYBOARD_DEFINITION_FORM_UPDATE_DRAGGING = ''@KeyboardDefinitionForm/UpdateDragging'' \<rparr>"

definition sample_state :: root_state where
  "sample_state = \<lparr>
     entities = \<lparr> keyboards = [2, 12], keyboard = Some 12,
                  device = \<lparr> layerCount = None, keymaps = [], macros = Map.empty \<rparr>,
                  keyboardDefinition =
                    Some \<lparr> matrix = \<lparr> rows = 4, cols = 12 \<rparr>, definition_name = ''sample'' \<rparr> \<rparr>,
     app = \<lparr> setupPhase = idle, remaps = [],
             package = \<lparr> name = ''remap'', version = ''1'' \<rparr>, notifications = [] \<rparr>,
     keyboardsUi = \<lparr> selectedPos = [], selectedLayer = 0 \<rparr>,
     keycodes = \<lparr> category = ''basic'', keys = 0 \<rparr>,
     keycodeKey = \<lparr> draggingKey = None, selectedKey = None, hoverKey = None \<rparr>,
     keydiff = \<lparr> origin = None, destination = None \<rparr>,
     header = \<lparr> flushLoading = False \<rparr>,
     keyboardDefinitionForm = \<lparr> dragging = False \<rparr>,
     hid = \<lparr> service_instance = 100 \<rparr>,
     storage = \<lparr> service_instance = 101 \<rparr> \<rparr>"

definition sample_device :: device_api where
  "sample_device = \<lparr>
     connect = Result True (Some 22),
     detectKeyboards = [2, 12],
     isOpened = (\<lambda>k. False),
     isSameDevice = (\<lambda>a b. a mod 10 = b mod 10),
     getInformation = (\<lambda>k. \<lparr> vendorId = 1, productId = int (k mod 10) \<rparr>),
     open_keyboard = (\<lambda>k. Result True None),
     fetchLayerCount = (\<lambda>k. Result True (Some 2)),
     fetchKeymaps = (\<lambda>k i r c. Result True (Some [(''0,0'', nat i)])) \<rparr>"

section \<open>Session initialization\<close>

text \<open>The loop awaits fetches and dispatches nothing.\<close>

lemma fetchLoop_events_only_fetches:
  "dispatches (fst (fetchLoop D kbd r c count i kms)) = []"
proof (induction D kbd r c count i kms rule: fetchLoop.induct)
  case (1 D kbd r c count i kms)
  show ?case
    using "1.IH"
    by (subst fetchLoop.simps) (simp add: Let_def)
qed

lemma fetchLoop_all_succeed:
  "(\<And>j. i \<le> j \<Longrightarrow> j < n \<Longrightarrow> success (fetchKeymaps D kbd j r c)) \<Longrightarrow>
   fetchLoop D kbd r c (Some n) i kms =
     (map (\<lambda>j. AwaitFetchKeymaps kbd j r c) [i..n - 1],
      Some (kms @ map (\<lambda>j. member (fetchKeymaps D kbd j r c)) [i..n - 1]))"
proof (induction D kbd r c "Some n" i kms rule: fetchLoop.induct)
  case (1 D kbd r c i kms)
  show ?case
  proof (cases "i < n")
    case True
    have ok: "success (fetchKeymaps D kbd i r c)" using "1.prems"[of i] True by simp
    have rest: "fetchLoop D kbd r c (Some n) (i + 1) (kms @ [member (fetchKeymaps D kbd i r c)]) =
       (map (\<lambda>j. AwaitFetchKeymaps kbd j r c) [i + 1..n - 1],
        Some ((kms @ [member (fetchKeymaps D kbd i r c)]) @
              map (\<lambda>j. member (fetchKeymaps D kbd j r c)) [i + 1..n - 1]))"
      using "1.hyps"[OF _ refl] True ok "1.prems" by simp
    have up: "[i..n - 1] = i # [i + 1..n - 1]" using True by (simp add: upto_rec1)
    show ?thesis
      by (subst fetchLoop.simps) (simp add: True ok rest up Let_def)
  next
    case False
    then have "[i..n - 1] = []" by simp
    with False show ?thesis by (subst fetchLoop.simps) simp
  qed
qed

lemma fetchLoop_some_fails:
  "i \<le> f \<Longrightarrow> f < n \<Longrightarrow> \<not> success (fetchKeymaps D kbd f r c) \<Longrightarrow>
   snd (fetchLoop D kbd r c (Some n) i kms) = None"
proof (induction D kbd r c "Some n" i kms rule: fetchLoop.induct)
  case (1 D kbd r c i kms)
  show ?case
  proof (cases "success (fetchKeymaps D kbd i r c)")
    case True
    then have "i \<noteq> f" using "1.prems" by auto
    then have "i + 1 \<le> f" using "1.prems" by simp
    then have "snd (fetchLoop D kbd r c (Some n) (i + 1) (kms @ [member (fetchKeymaps D kbd i r c)])) = None"
      using "1.hyps"[OF _ refl] True "1.prems" by simp
    then show ?thesis using "1.prems" True
      by (subst fetchLoop.simps) (simp add: Let_def)
  next
    case False
    then show ?thesis using "1.prems"
      by (subst fetchLoop.simps) (simp add: Let_def)
  qed
qed

lemma dispatches_append: "dispatches (xs @ ys) = dispatches xs @ dispatches ys"
  by (induction xs rule: dispatches.induct) simp_all

lemma dispatches_fetches: "dispatches (map (\<lambda>j. AwaitFetchKeymaps kbd j r c) js) = []"
  by (induction js) simp_all

lemma initOpenedKeyboard_failure_dispatches_nothing:
  assumes "\<not> success (fetchLayerCount D kbd) \<or>
           (\<exists>n f. member (fetchLayerCount D kbd) = Some n \<and> 0 \<le> f \<and> f < n \<and>
                  \<not> success (fetchKeymaps D kbd f r c))"
  shows "dispatches (initOpenedKeyboard D kbd r c) = []"
proof (cases "success (fetchLayerCount D kbd)")
  case False
  then show ?thesis by (simp add: initOpenedKeyboard_def)
next
  case True
  with assms obtain n f where nf: "member (fetchLayerCount D kbd) = Some n" "0 \<le> f" "f < n"
    "\<not> success (fetchKeymaps D kbd f r c)" by blast
  have "snd (fetchLoop D kbd r c (Some n) 0 []) = None"
    using fetchLoop_some_fails[OF nf(2) nf(3) nf(4)] .
  then show ?thesis
    using True nf(1)
    by (simp add: initOpenedKeyboard_def Let_def dispatches_append fetchLoop_events_only_fetches)
qed

text \<open>
  C2. When \<open>fetchLayerCount\<close> answers \<open>layerCount = N\<close> and the fetch of every layer
  \<open>0 .. N - 1\<close> succeeds, session initialization awaits the layer count, then the keymaps
  of the layers in increasing order, and then dispatches exactly five actions in this
  order: the layer count \<open>N\<close>, the array of the \<open>N\<close> fetched keymaps, the re-initialization
  of the remap table for \<open>N\<close> layers, the selected layer \<open>0\<close>, and the opened keyboard as
  the current handle.
\<close>

theorem initOpenedKeyboard_success:
  assumes lc: "fetchLayerCount D kbd = Result True (Some N)"
      and ok: "\<forall>i. 0 \<le> i \<and> i < N \<longrightarrow> success (fetchKeymaps D kbd i r c)"
  shows "initOpenedKeyboard D kbd r c =
           AwaitFetchLayerCount kbd # map (\<lambda>i. AwaitFetchKeymaps kbd i r c) [0..N - 1] @
           [Dispatch (Plain (updateKeyboardLayerCount (Some N))),
            Dispatch (Plain (updateKeymaps
              (map (\<lambda>i. member (fetchKeymaps D kbd i r c)) [0..N - 1]))),
            Dispatch (RemapsInit (Some N)),
            Dispatch (UpdateSelectedLayer 0),
            Dispatch (Plain (updateKeyboard kbd))]
         \<and> dispatches (initOpenedKeyboard D kbd r c) =
           [Plain (updateKeyboardLayerCount (Some N)),
            Plain (updateKeymaps (map (\<lambda>i. member (fetchKeymaps D kbd i r c)) [0..N - 1])),
            RemapsInit (Some N),
            UpdateSelectedLayer 0,
            Plain (updateKeyboard kbd)]
         \<and> length (map (\<lambda>i. member (fetchKeymaps D kbd i r c)) [0..N - 1]) = nat N"
proof -
  have loop: "fetchLoop D kbd r c (Some N) 0 [] =
      (map (\<lambda>j. AwaitFetchKeymaps kbd j r c) [0..N - 1],
       Some ([] @ map (\<lambda>j. member (fetchKeymaps D kbd j r c)) [0..N - 1]))"
    using ok by (intro fetchLoop_all_succeed) simp
  have run: "initOpenedKeyboard D kbd r c =
           AwaitFetchLayerCount kbd # map (\<lambda>i. AwaitFetchKeymaps kbd i r c) [0..N - 1] @
           [Dispatch (Plain (updateKeyboardLayerCount (Some N))),
            Dispatch (Plain (updateKeymaps
              (map (\<lambda>i. member (fetchKeymaps D kbd i r c)) [0..N - 1]))),
            Dispatch (RemapsInit (Some N)),
            Dispatch (UpdateSelectedLayer 0),
            Dispatch (Plain (updateKeyboard kbd))]"
    by (simp add: initOpenedKeyboard_def lc loop Let_def)
  show ?thesis
    by (simp add: run dispatches_append dispatches_fetches)
qed

lemma upto_0_1: "[0..(1::int)] = [0, 1]"
  by (simp add: upto_rec1)

theorem initOpenedKeyboard_success_witness:
  "fetchLayerCount sample_device 12 = Result True (Some 2) \<and>
   success (fetchKeymaps sample_device 12 0 4 12) \<and>
   success (fetchKeymaps sample_device 12 1 4 12) \<and>
   initOpenedKeyboard sample_device 12 4 12 =
     [AwaitFetchLayerCount 12, AwaitFetchKeymaps 12 0 4 12, AwaitFetchKeymaps 12 1 4 12,
      Dispatch (Plain (updateKeyboardLayerCount (Some 2))),
      Dispatch (Plain (updateKeymaps [Some [(''0,0'', 0)], Some [(''0,0'', 1)]])),
      Dispatch (RemapsInit (Some 2)),
      Dispatch (UpdateSelectedLayer 0),
      Dispatch (Plain (updateKeyboard 12))]"
  using initOpenedKeyboard_success [of sample_device 12 2 4 12]
  by (simp add: sample_device_def upto_0_1)

text \<open>
  C1. When \<open>fetchLayerCount\<close> fails, or the fetch of some layer fails, none of the five
  updates is dispatched and the keymaps fetched so far are dropped
  (\<open>initOpenedKeyboard_failure_dispatches_nothing\<close>). The claim adds that no setup-phase
  transition occurs. \<open>openKeyboard\<close> does not look at how \<open>initOpenedKeyboard\<close> ended: on
  both kinds of failure its run ends with the dispatch of the phase \<open>openedKeyboard\<close>.
\<close>

theorem openKeyboard_transitions_after_failed_fetch:
  "openKeyboard (sample_device\<lparr>fetchLayerCount := (\<lambda>k. Result False None)\<rparr>) sample_state =
     [AwaitOpen 12, AwaitFetchLayerCount 12, Dispatch (UpdateSetupPhase openedKeyboard)]
   \<and> openKeyboard (sample_device\<lparr>fetchKeymaps :=
        (\<lambda>k i r c. if i = 1 then Result False None else Result True (Some []))\<rparr>) sample_state =
     [AwaitOpen 12, AwaitFetchLayerCount 12, AwaitFetchKeymaps 12 0 4 12,
      AwaitFetchKeymaps 12 1 4 12, Dispatch (UpdateSetupPhase openedKeyboard)]"
  by (simp add: openKeyboard_def initOpenedKeyboard_def sample_device_def sample_state_def
        fetchLoop.simps Let_def)


section \<open>The connect workflows\<close>

text \<open>\<open>Array.prototype.find\<close> answers the first element that passes the test.\<close>

lemma find_first_match:
  "find P xs = Some x \<Longrightarrow>
   \<exists>pre post. xs = pre @ x # post \<and> P x \<and> (\<forall>k \<in> set pre. \<not> P k)"
proof (induction xs)
  case Nil
  then show ?case by simp
next
  case (Cons y ys)
  show ?case
  proof (cases "P y")
    case True
    with Cons.prems have "x = y" by simp
    with True have "y # ys = [] @ x # ys \<and> P x \<and> (\<forall>k \<in> set []. \<not> P k)" by simp
    then show ?thesis by blast
  next
    case False
    with Cons.prems have "find P ys = Some x" by simp
    from Cons.IH[OF this] obtain pre post
      where "ys = pre @ x # post" "P x" "\<forall>k \<in> set pre. \<not> P k" by blast
    with False have "y # ys = (y # pre) @ x # post \<and> P x \<and> (\<forall>k \<in> set (y # pre). \<not> P k)"
      by simp
    then show ?thesis by blast
  qed
qed

lemma find_match_exists:
  "x \<in> set xs \<Longrightarrow> P x \<Longrightarrow> \<exists>l. find P xs = Some l"
  by (cases "find P xs") (auto simp: find_None_iff)

lemma reducers_updateKeyboard:
  "reducers T now s (updateKeyboard L) =
     Inr (s\<lparr>entities := (entities s)\<lparr>keyboard := Some L\<rparr>\<rparr>)"
  by (simp add: reducers_def updateKeyboard_def hidReducer_def HID_ACTIONS_def
        HID_UPDATE_KEYBOARD_def HID_CONNECT_KEYBOARD_def HID_DISCONNECT_KEYBOARD_def)

text \<open>
  C6. When the acquired handle reports that it is opened and is the same device as the
  state entry the workflow checks (an entry of the known list in \<open>connectAnotherKeyboard\<close>,
  the current handle in \<open>connectKeyboard\<close>), the workflow dispatches the phase
  \<open>openedKeyboard\<close> and nothing else: no list update, no entry added or removed.
\<close>

theorem connect_opened_known:
  assumes "isOpened D kbd"
  shows "(connect D = Result True (Some kbd) \<and>
          (\<exists>l \<in> set (keyboards (entities s)). isSameDevice D l kbd) \<longrightarrow>
            connectAnotherKeyboard D s =
              [AwaitConnect, Dispatch (UpdateSetupPhase openedKeyboard)])
       \<and> ((\<exists>cur. keyboard (entities s) = Some cur \<and> isSameDevice D cur kbd) \<longrightarrow>
            connectKeyboard D s kbd = [Dispatch (UpdateSetupPhase openedKeyboard)])"
proof (intro conjI impI)
  assume h: "connect D = Result True (Some kbd) \<and>
             (\<exists>l \<in> set (keyboards (entities s)). isSameDevice D l kbd)"
  then obtain l where "find (\<lambda>k. isSameDevice D k kbd) (keyboards (entities s)) = Some l"
    using find_match_exists[of _ "keyboards (entities s)" "\<lambda>k. isSameDevice D k kbd"] by blast
  with h assms show "connectAnotherKeyboard D s =
      [AwaitConnect, Dispatch (UpdateSetupPhase openedKeyboard)]"
    by (simp add: connectAnotherKeyboard_def Let_def)
next
  assume "\<exists>cur. keyboard (entities s) = Some cur \<and> isSameDevice D cur kbd"
  with assms show "connectKeyboard D s kbd = [Dispatch (UpdateSetupPhase openedKeyboard)]"
    by (auto simp: connectKeyboard_def Let_def)
qed

theorem connect_opened_known_witness:
  "isOpened (sample_device\<lparr>isOpened := (\<lambda>k. True)\<rparr>) 22 \<and>
   connect (sample_device\<lparr>isOpened := (\<lambda>k. True)\<rparr>) = Result True (Some 22) \<and>
   isSameDevice (sample_device\<lparr>isOpened := (\<lambda>k. True)\<rparr>) 12 22 \<and>
   keyboards (entities sample_state) = [2, 12] \<and>
   keyboard (entities sample_state) = Some 12 \<and>
   connectAnotherKeyboard (sample_device\<lparr>isOpened := (\<lambda>k. True)\<rparr>) sample_state =
     [AwaitConnect, Dispatch (UpdateSetupPhase openedKeyboard)] \<and>
   connectKeyboard (sample_device\<lparr>isOpened := (\<lambda>k. True)\<rparr>) sample_state 22 =
     [Dispatch (UpdateSetupPhase openedKeyboard)]"
  using connect_opened_known [of "sample_device\<lparr>isOpened := (\<lambda>k. True)\<rparr>" 22 sample_state]
  by (simp add: sample_device_def sample_state_def)

text \<open>
  C7, as stated: an opened handle that matches no known device gets one warning and no
  phase. \<open>connectKeyboard\<close> never looks at the known list on this path; it asks the
  current handle only. With the known list \<open>[3]\<close>, the current handle \<open>12\<close> and the opened
  handle \<open>22\<close>, no entry of the list is the same device, and the run is the dispatch of
  the phase \<open>openedKeyboard\<close> with no warning.
\<close>

theorem connectKeyboard_unlisted_current_counterexample:
  "isOpened (sample_device\<lparr>isOpened := (\<lambda>k. True)\<rparr>) 22 \<and>
   keyboards (entities (sample_state\<lparr>entities := (entities sample_state)\<lparr>keyboards := [3]\<rparr>\<rparr>)) = [3] \<and>
   \<not> isSameDevice (sample_device\<lparr>isOpened := (\<lambda>k. True)\<rparr>) 3 22 \<and>
   keyboard (entities (sample_state\<lparr>entities := (entities sample_state)\<lparr>keyboards := [3]\<rparr>\<rparr>)) =
     Some 12 \<and>
   connectKeyboard (sample_device\<lparr>isOpened := (\<lambda>k. True)\<rparr>)
     (sample_state\<lparr>entities := (entities sample_state)\<lparr>keyboards := [3]\<rparr>\<rparr>) 22 =
     [Dispatch (UpdateSetupPhase openedKeyboard)]"
  by (simp add: sample_device_def sample_state_def connectKeyboard_def)

text \<open>
  C7, amended: when the acquired handle reports that it is opened and is the same device
  as no state entry the workflow checks (no entry of the known list in
  \<open>connectAnotherKeyboard\<close>, not the current handle in \<open>connectKeyboard\<close>), the workflow
  dispatches one warning notification and nothing else: no update of the list or of the
  current handle, and no phase. For \<open>connectKeyboard\<close> that is the case, in particular,
  when no entry of the known list is the same device and the current handle, if there is
  one, is an entry of the list.
\<close>

theorem connect_opened_unknown:
  assumes "isOpened D kbd"
  shows "(connect D = Result True (Some kbd) \<and>
          (\<forall>l \<in> set (keyboards (entities s)). \<not> isSameDevice D l kbd) \<longrightarrow>
            connectAnotherKeyboard D s =
              [AwaitConnect, Dispatch (AddWarn already_opened_msg)])
       \<and> ((\<forall>cur. keyboard (entities s) = Some cur \<longrightarrow> \<not> isSameDevice D cur kbd) \<longrightarrow>
            connectKeyboard D s kbd = [Dispatch (AddWarn already_opened_msg)])
       \<and> ((\<forall>l \<in> set (keyboards (entities s)). \<not> isSameDevice D l kbd) \<and>
           (\<forall>cur. keyboard (entities s) = Some cur \<longrightarrow> cur \<in> set (keyboards (entities s))) \<longrightarrow>
            connectKeyboard D s kbd = [Dispatch (AddWarn already_opened_msg)])"
proof (intro conjI impI)
  assume h: "connect D = Result True (Some kbd) \<and>
             (\<forall>l \<in> set (keyboards (entities s)). \<not> isSameDevice D l kbd)"
  then have "find (\<lambda>k. isSameDevice D k kbd) (keyboards (entities s)) = None"
    by (simp add: find_None_iff)
  with h assms show "connectAnotherKeyboard D s =
      [AwaitConnect, Dispatch (AddWarn already_opened_msg)]"
    by (simp add: connectAnotherKeyboard_def Let_def)
next
  assume "\<forall>cur. keyboard (entities s) = Some cur \<longrightarrow> \<not> isSameDevice D cur kbd"
  with assms show "connectKeyboard D s kbd = [Dispatch (AddWarn already_opened_msg)]"
    by (auto simp: connectKeyboard_def Let_def split: option.splits)
next
  assume "(\<forall>l \<in> set (keyboards (entities s)). \<not> isSameDevice D l kbd) \<and>
          (\<forall>cur. keyboard (entities s) = Some cur \<longrightarrow> cur \<in> set (keyboards (entities s)))"
  then have "\<forall>cur. keyboard (entities s) = Some cur \<longrightarrow> \<not> isSameDevice D cur kbd"
    by blast
  with assms show "connectKeyboard D s kbd = [Dispatch (AddWarn already_opened_msg)]"
    by (auto simp: connectKeyboard_def Let_def split: option.splits)
qed

theorem connect_opened_unknown_witness:
  "isOpened (sample_device\<lparr>isOpened := (\<lambda>k. True), connect := Result True (Some 23)\<rparr>) 23 \<and>
   \<not> isSameDevice (sample_device\<lparr>isOpened := (\<lambda>k. True), connect := Result True (Some 23)\<rparr>) 2 23 \<and>
   \<not> isSameDevice (sample_device\<lparr>isOpened := (\<lambda>k. True), connect := Result True (Some 23)\<rparr>) 12 23 \<and>
   keyboards (entities sample_state) = [2, 12] \<and>
   keyboard (entities sample_state) = Some 12 \<and>
   connectAnotherKeyboard
     (sample_device\<lparr>isOpened := (\<lambda>k. True), connect := Result True (Some 23)\<rparr>) sample_state =
     [AwaitConnect, Dispatch (AddWarn already_opened_msg)] \<and>
   connectKeyboard
     (sample_device\<lparr>isOpened := (\<lambda>k. True), connect := Result True (Some 23)\<rparr>) sample_state 23 =
     [Dispatch (AddWarn already_opened_msg)]"
  using connect_opened_unknown
    [of "sample_device\<lparr>isOpened := (\<lambda>k. True), connect := Result True (Some 23)\<rparr>" 23 sample_state]
  by (simp add: sample_device_def sample_state_def)

text \<open>
  C8, as stated: with \<open>A\<close> in the known list and \<open>isSameDevice(A, B)\<close>, connecting the
  closed handle \<open>B\<close> appends nothing and makes \<open>A\<close> the current handle. The second half fails
  when an earlier entry of the list is the same device as \<open>B\<close> too: \<open>find\<close> answers that
  entry. Here the list is \<open>[2, 12]\<close>, \<open>A = 12\<close>, \<open>B = 22\<close>, and handle \<open>2\<close> becomes current.
\<close>

theorem connect_listed_handle_counterexample:
  "12 \<in> set (keyboards (entities sample_state)) \<and>
   isSameDevice sample_device 12 22 \<and>
   \<not> isOpened sample_device 22 \<and>
   connect sample_device = Result True (Some 22) \<and>
   connectKeyboard sample_device sample_state 22 =
     [Dispatch (Plain (updateKeyboard 2)),
      Dispatch (UpdateSetupPhase fetchingKeyboardDefinition),
      Dispatch (FetchKeyboardDefinition 1 2)] \<and>
   connectAnotherKeyboard sample_device sample_state =
     [AwaitConnect,
      Dispatch (Plain (updateKeyboard 2)),
      Dispatch (UpdateSetupPhase fetchingKeyboardDefinition),
      Dispatch (FetchKeyboardDefinition 1 2)] \<and>
   updateKeyboard 2 \<noteq> updateKeyboard 12"
  by (simp add: sample_device_def sample_state_def connectKeyboard_def
        connectAnotherKeyboard_def connectNotOpened_def updateKeyboard_def Let_def)

text \<open>
  C8, amended: with \<open>A\<close> in the known list and \<open>isSameDevice(A, B)\<close>, connecting the closed
  handle \<open>B\<close> by either workflow dispatches no list update, and the handle it makes current
  is the first entry \<open>L\<close> of the list that is the same device as \<open>B\<close>, not \<open>B\<close>; \<open>L\<close> is \<open>A\<close>
  when \<open>A\<close> is the only such entry. The reducer then stores \<open>L\<close> as the current handle and
  leaves the rest of the state, the list included, as it is.
\<close>

theorem connect_not_opened_listed:
  assumes "\<not> isOpened D B" and "A \<in> set (keyboards (entities s))" and "isSameDevice D A B"
  shows "\<exists>L pre post.
           keyboards (entities s) = pre @ L # post \<and>
           (\<forall>k \<in> set pre. \<not> isSameDevice D k B) \<and>
           isSameDevice D L B \<and>
           connectKeyboard D s B =
             [Dispatch (Plain (updateKeyboard L)),
              Dispatch (UpdateSetupPhase fetchingKeyboardDefinition),
              Dispatch (FetchKeyboardDefinition (vendorId (getInformation D B))
                                               (productId (getInformation D B)))] \<and>
           (connect D = Result True (Some B) \<longrightarrow>
              connectAnotherKeyboard D s =
                [AwaitConnect,
                 Dispatch (Plain (updateKeyboard L)),
                 Dispatch (UpdateSetupPhase fetchingKeyboardDefinition),
                 Dispatch (FetchKeyboardDefinition (vendorId (getInformation D B))
                                                  (productId (getInformation D B)))]) \<and>
           ((\<forall>k \<in> set (keyboards (entities s)). isSameDevice D k B \<longrightarrow> k = A) \<longrightarrow> L = A) \<and>
           reducers T now s (updateKeyboard L) =
             Inr (s\<lparr>entities := (entities s)\<lparr>keyboard := Some L\<rparr>\<rparr>)"
proof -
  obtain L where found: "find (\<lambda>k. isSameDevice D k B) (keyboards (entities s)) = Some L"
    using find_match_exists[OF assms(2), of "\<lambda>k. isSameDevice D k B"] assms(3) by auto
  from find_first_match[OF this] obtain pre post
    where split: "keyboards (entities s) = pre @ L # post" "isSameDevice D L B"
      "\<forall>k \<in> set pre. \<not> isSameDevice D k B" by blast
  have tail: "connectNotOpened D (keyboards (entities s)) B =
      [Dispatch (Plain (updateKeyboard L)),
       Dispatch (UpdateSetupPhase fetchingKeyboardDefinition),
       Dispatch (FetchKeyboardDefinition (vendorId (getInformation D B))
                                        (productId (getInformation D B)))]"
    by (simp add: connectNotOpened_def found Let_def)
  have ck: "connectKeyboard D s B = connectNotOpened D (keyboards (entities s)) B"
    using assms(1) by (simp add: connectKeyboard_def Let_def)
  have ca: "connect D = Result True (Some B) \<Longrightarrow>
      connectAnotherKeyboard D s = AwaitConnect # connectNotOpened D (keyboards (entities s)) B"
    using assms(1) by (simp add: connectAnotherKeyboard_def Let_def)
  have only: "(\<forall>k \<in> set (keyboards (entities s)). isSameDevice D k B \<longrightarrow> k = A) \<longrightarrow> L = A"
    using split by auto
  have ca': "connect D = Result True (Some B) \<longrightarrow>
      connectAnotherKeyboard D s =
        [AwaitConnect,
         Dispatch (Plain (updateKeyboard L)),
         Dispatch (UpdateSetupPhase fetchingKeyboardDefinition),
         Dispatch (FetchKeyboardDefinition (vendorId (getInformation D B))
                                          (productId (getInformation D B)))]"
    using ca tail by simp
  have ck': "connectKeyboard D s B =
      [Dispatch (Plain (updateKeyboard L)),
       Dispatch (UpdateSetupPhase fetchingKeyboardDefinition),
       Dispatch (FetchKeyboardDefinition (vendorId (getInformation D B))
                                        (productId (getInformation D B)))]"
    using ck tail by simp
  show ?thesis
    apply (rule exI[of _ L], rule exI[of _ pre], rule exI[of _ post])
    apply (intro conjI)
          apply (rule split(1))
         apply (rule split(3))
        apply (rule split(2))
       apply (rule ck')
      apply (rule ca')
     apply (rule only)
    apply (rule reducers_updateKeyboard)
    done
qed

theorem connect_not_opened_listed_witness:
  "\<not> isOpened sample_device 22 \<and>
   2 \<in> set (keyboards (entities sample_state)) \<and>
   isSameDevice sample_device 2 22 \<and>
   connectKeyboard sample_device sample_state 22 =
     [Dispatch (Plain (updateKeyboard 2)),
      Dispatch (UpdateSetupPhase fetchingKeyboardDefinition),
      Dispatch (FetchKeyboardDefinition 1 2)]"
  using connect_not_opened_listed [of sample_device 22 2 sample_state]
  by (simp add: sample_device_def sample_state_def connectKeyboard_def
        connectNotOpened_def Let_def)

section \<open>The reducer: routing and frames\<close>

lemmas reducer_defs =
  hidReducer_def headerReducer_def keycodesReducer_def keyboardsReducer_def
  keycodekeyReducer_def keydiffReducer_def notificationReducer_def appReducer_def
  storageReducer_def keyboardDefinitionFormReducer_def

lemmas hid_tag_defs =
  HID_ACTIONS_def HID_CONNECT_KEYBOARD_def HID_DISCONNECT_KEYBOARD_def HID_UPDATE_KEYBOARD_def
  HID_UPDATE_KEYBOARD_LAYER_COUNT_def HID_UPDATE_KEYBOARD_LIST_def HID_UPDATE_KEYMAPS_def
  HID_OPEN_KEYBOARD_def

text \<open>
  C9. An action whose tag is none of the case labels of the sub-reducers leaves the state
  as it is, whatever sub-reducer its prefix routes it to and whatever its payload.
\<close>

theorem reducers_unmatched_tag:
  assumes "type a \<notin> set (case_tags T)"
  shows "reducers T now s a = Inr s"
  using assms by (simp add: reducers_def reducer_defs case_tags_def)

theorem reducers_unmatched_tag_witness:
  "type (Action HID_OPEN_KEYBOARD Undefined) \<notin> set (case_tags sample_tags) \<and>
   reducers sample_tags 0 sample_state (Action HID_OPEN_KEYBOARD Undefined) = Inr sample_state \<and>
   type (Action ''@@redux/INIT'' Undefined) \<notin> set (case_tags sample_tags) \<and>
   reducers sample_tags 0 sample_state (Action ''@@redux/INIT'' Undefined) = Inr sample_state"
  using reducers_unmatched_tag [of "Action HID_OPEN_KEYBOARD Undefined" sample_tags 0 sample_state]
        reducers_unmatched_tag [of "Action ''@@redux/INIT'' Undefined" sample_tags 0 sample_state]
  by (simp add: case_tags_def sample_tags_def hid_tag_defs)

text \<open>
  C10. \<open>HID_DISCONNECT_KEYBOARD\<close> leaves the known-keyboards list and every other member
  as they are, and clears the current handle exactly when it is the disconnected
  keyboard: the new state is the old one with that single member rewritten.
\<close>

theorem reducers_disconnect:
  "reducers T now s (disconnectKeyboard k) =
     Inr (s\<lparr>entities := (entities s)\<lparr>keyboard :=
            (if keyboard (entities s) = Some k then None else keyboard (entities s))\<rparr>\<rparr>)"
  by (simp add: reducers_def disconnectKeyboard_def hidReducer_def hid_tag_defs Let_def)

theorem reducers_disconnect_witness:
  "reducers sample_tags 0 sample_state (disconnectKeyboard 12) =
     Inr (sample_state\<lparr>entities := (entities sample_state)\<lparr>keyboard := None\<rparr>\<rparr>) \<and>
   reducers sample_tags 0 sample_state (disconnectKeyboard 2) = Inr sample_state \<and>
   keyboards (entities sample_state) = [2, 12]"
  using reducers_disconnect [of sample_tags 0 sample_state 12]
        reducers_disconnect [of sample_tags 0 sample_state 2]
  by (simp add: sample_state_def)

lemma reducers_route:
  "reducers T now s a =
     (case namespace_of T (type a) of
        None \<Rightarrow> Inr s
      | Some Hid \<Rightarrow> hidReducer a s
      | Some Header \<Rightarrow> headerReducer T a s
      | Some Keycodes \<Rightarrow> keycodesReducer T a s
      | Some Keyboards \<Rightarrow> keyboardsReducer T a s
      | Some KeycodeKey \<Rightarrow> keycodekeyReducer T a s
      | Some Keydiff \<Rightarrow> keydiffReducer T a s
      | Some Notification \<Rightarrow> notificationReducer T now a s
      | Some App \<Rightarrow> appReducer T a s
      | Some Storage \<Rightarrow> storageReducer T a s
      | Some KeyboardDefinitionForm \<Rightarrow> keyboardDefinitionFormReducer T a s)"
  by (simp add: reducers_def namespace_of_def)

lemma hidReducer_edits: "hidReducer a s = Inr s' \<Longrightarrow> edits_within (Some Hid) s s'"
  by (auto simp: hidReducer_def Let_def split: if_splits payload.splits)

lemma headerReducer_edits: "headerReducer T a s = Inr s' \<Longrightarrow> edits_within (Some Header) s s'"
  by (auto simp: headerReducer_def split: if_splits payload.splits)

lemma keycodesReducer_edits:
  "keycodesReducer T a s = Inr s' \<Longrightarrow> edits_within (Some Keycodes) s s'"
  by (auto simp: keycodesReducer_def split: if_splits payload.splits)

lemma keyboardsReducer_edits:
  "keyboardsReducer T a s = Inr s' \<Longrightarrow> edits_within (Some Keyboards) s s'"
  by (auto simp: keyboardsReducer_def split: if_splits payload.splits)

lemma keycodekeyReducer_edits:
  "keycodekeyReducer T a s = Inr s' \<Longrightarrow> edits_within (Some KeycodeKey) s s'"
  by (auto simp: keycodekeyReducer_def split: if_splits payload.splits)

lemma keydiffReducer_edits:
  "keydiffReducer T a s = Inr s' \<Longrightarrow> edits_within (Some Keydiff) s s'"
  by (auto simp: keydiffReducer_def split: if_splits payload.splits)

lemma notificationReducer_edits:
  "notificationReducer T now a s = Inr s' \<Longrightarrow> edits_within (Some Notification) s s'"
  by (auto simp: notificationReducer_def addNotification_def split: if_splits payload.splits)

lemma appReducer_edits: "appReducer T a s = Inr s' \<Longrightarrow> edits_within (Some App) s s'"
  by (auto simp: appReducer_def split: if_splits payload.splits)

lemma storageReducer_edits:
  "storageReducer T a s = Inr s' \<Longrightarrow> edits_within (Some Storage) s s'"
  by (auto simp: storageReducer_def split: if_splits payload.splits)

lemma keyboardDefinitionFormReducer_edits:
  "keyboardDefinitionFormReducer T a s = Inr s' \<Longrightarrow>
   edits_within (Some KeyboardDefinitionForm) s s'"
  by (auto simp: keyboardDefinitionFormReducer_def split: if_splits payload.splits)

lemma reducers_route_edits:
  assumes "reducers T now s a = Inr s'"
  shows "edits_within (namespace_of T (type a)) s s'"
proof (cases "namespace_of T (type a)")
  case None
  with assms show ?thesis by (simp add: reducers_route)
next
  case (Some n)
  with assms show ?thesis
    by (cases n)
       (simp_all add: reducers_route hidReducer_edits headerReducer_edits
          keycodesReducer_edits keyboardsReducer_edits keycodekeyReducer_edits
          keydiffReducer_edits notificationReducer_edits appReducer_edits
          storageReducer_edits keyboardDefinitionFormReducer_edits del: edits_within.simps)
qed

text \<open>
  Whatever the tag table, once the two keycodes tags reach their cases one of them writes
  under \<open>keycodes\<close> and the other under \<open>entities\<close>.
\<close>

lemma keycodes_writes_two_slices:
  assumes "namespace_of T (KEYCODES_UPDATE_CATEGORY T) = Some Keycodes"
      and "namespace_of T (KEYCODES_UPDATE_MACRO T) = Some Keycodes"
      and "KEYCODES_UPDATE_MACRO T \<noteq> KEYCODES_UPDATE_CATEGORY T"
  shows "reducers T now s (Action (KEYCODES_UPDATE_CATEGORY T) (StrV c)) =
           Inr (s\<lparr>keycodes := (keycodes s)\<lparr>category := c\<rparr>\<rparr>)
       \<and> reducers T now s (Action (KEYCODES_UPDATE_MACRO T) (MacroV code text)) =
           Inr (s\<lparr>entities := (entities s)\<lparr>device := (device (entities s))\<lparr>
                  macros := (macros (device (entities s)))(code \<mapsto> text)\<rparr>\<rparr>\<rparr>)"
  using assms by (simp add: reducers_route keycodesReducer_def)

text \<open>
  C3, as stated: an action whose tag starts with a namespace prefix changes nothing
  outside the slice of that namespace. Two actions of the \<open>@Keycodes\<close> namespace refute
  it for every choice of the slice: \<open>KEYCODES_UPDATE_MACRO\<close> rewrites
  \<open>entities.device.macros\<close> and \<open>KEYCODES_UPDATE_CATEGORY\<close> rewrites \<open>keycodes.category\<close>.
\<close>

theorem keycodes_namespace_counterexample:
  "startsWith (KEYCODES_UPDATE_MACRO sample_tags) (KEYCODES_ACTIONS sample_tags) \<and>
   startsWith (KEYCODES_UPDATE_CATEGORY sample_tags) (KEYCODES_ACTIONS sample_tags) \<and>
   reducers sample_tags 0 sample_state
     (Action (KEYCODES_UPDATE_MACRO sample_tags) (MacroV 1 ''hello'')) =
     Inr (sample_state\<lparr>entities := (entities sample_state)\<lparr>device :=
            (device (entities sample_state))\<lparr>macros := [1 \<mapsto> ''hello'']\<rparr>\<rparr>\<rparr>) \<and>
   (entities sample_state)\<lparr>device :=
      (device (entities sample_state))\<lparr>macros := [1 \<mapsto> ''hello'']\<rparr>\<rparr> \<noteq> entities sample_state \<and>
   reducers sample_tags 0 sample_state
     (Action (KEYCODES_UPDATE_CATEGORY sample_tags) (StrV ''layers'')) =
     Inr (sample_state\<lparr>keycodes := (keycodes sample_state)\<lparr>category := ''layers''\<rparr>\<rparr>) \<and>
   (keycodes sample_state)\<lparr>category := ''layers''\<rparr> \<noteq> keycodes sample_state"
  by (simp add: reducers_def keycodesReducer_def sample_tags_def sample_state_def HID_ACTIONS_def)

text \<open>
  C3, amended: each sub-reducer assigns a fixed set of members, which need not lie in a
  slice named after its namespace, and an action leaves every member outside the set of
  the sub-reducer it is routed to unchanged. The sets are: \<open>@Hid\<close>
  \<open>entities.keyboards\<close>, \<open>entities.keyboard\<close>, \<open>entities.device.layerCount\<close> and
  \<open>entities.device.keymaps\<close>; header \<open>header\<close>; keycodes \<open>keycodes\<close> and
  \<open>entities.device.macros\<close>; keyboards \<open>keyboards\<close>; keycode key \<open>keycodeKey\<close>; keydiff
  \<open>keydiff\<close>; notification \<open>app.notifications\<close>; app the rest of \<open>app\<close>; storage
  \<open>entities.keyboardDefinition\<close>; definition form \<open>keyboardDefinitionForm\<close>.
\<close>

theorem reducers_edits_within:
  assumes "reducers T now s a = Inr s'"
  shows "edits_within (namespace_of T (type a)) s s'"
  using assms by (rule reducers_route_edits)

theorem reducers_edits_within_witness:
  "reducers sample_tags 0 sample_state
     (Action (KEYCODES_UPDATE_MACRO sample_tags) (MacroV 1 ''hello'')) =
     Inr (sample_state\<lparr>entities := (entities sample_state)\<lparr>device :=
            (device (entities sample_state))\<lparr>macros := [1 \<mapsto> ''hello'']\<rparr>\<rparr>\<rparr>) \<and>
   namespace_of sample_tags (KEYCODES_UPDATE_MACRO sample_tags) = Some Keycodes \<and>
   edits_within (Some Keycodes) sample_state
     (sample_state\<lparr>entities := (entities sample_state)\<lparr>device :=
            (device (entities sample_state))\<lparr>macros := [1 \<mapsto> ''hello'']\<rparr>\<rparr>\<rparr>)"
  using reducers_edits_within [of sample_tags 0 sample_state
          "Action (KEYCODES_UPDATE_MACRO sample_tags) (MacroV 1 ''hello'')"]
  by (simp add: reducers_def keycodesReducer_def namespace_of_def sample_tags_def
        sample_state_def HID_ACTIONS_def)

section \<open>The reducer and the clock\<close>

text \<open>
  Whatever the tag table, once \<open>NOTIFICATION_ADD_ERROR\<close> reaches its case the result depends
  on the clock, and two additions at one clock reading share their key.
\<close>

lemma add_error_reads_clock:
  assumes "namespace_of T (NOTIFICATION_ADD_ERROR T) = Some Notification"
      and "toString n1 \<noteq> toString n2"
  shows "reducers T n1 s (Action (NOTIFICATION_ADD_ERROR T) (StrV m)) \<noteq>
         reducers T n2 s (Action (NOTIFICATION_ADD_ERROR T) (StrV m))"
proof
  assume "reducers T n1 s (Action (NOTIFICATION_ADD_ERROR T) (StrV m)) =
          reducers T n2 s (Action (NOTIFICATION_ADD_ERROR T) (StrV m))"
  then have "s\<lparr>app := (app s)\<lparr>notifications := notifications (app s) @
                 [\<lparr>key = toString n1, kind = ''error'', message = m\<rparr>]\<rparr>\<rparr> =
             s\<lparr>app := (app s)\<lparr>notifications := notifications (app s) @
                 [\<lparr>key = toString n2, kind = ''error'', message = m\<rparr>]\<rparr>\<rparr>"
    using assms(1) by (simp add: reducers_route notificationReducer_def addNotification_def)
  then have "notifications (app (s\<lparr>app := (app s)\<lparr>notifications := notifications (app s) @
                 [\<lparr>key = toString n1, kind = ''error'', message = m\<rparr>]\<rparr>\<rparr>)) =
             notifications (app (s\<lparr>app := (app s)\<lparr>notifications := notifications (app s) @
                 [\<lparr>key = toString n2, kind = ''error'', message = m\<rparr>]\<rparr>\<rparr>))"
    by (rule arg_cong)
  with assms(2) show False by simp
qed

lemma add_error_twice_shares_key:
  assumes "namespace_of T (NOTIFICATION_ADD_ERROR T) = Some Notification"
  shows "\<exists>s1 s2. reducers T now s (Action (NOTIFICATION_ADD_ERROR T) (StrV m1)) = Inr s1 \<and>
                 reducers T now s1 (Action (NOTIFICATION_ADD_ERROR T) (StrV m2)) = Inr s2 \<and>
                 map key (notifications (app s2)) =
                   map key (notifications (app s)) @ [toString now, toString now]"
  using assms by (simp add: reducers_route notificationReducer_def addNotification_def)





















text \<open>
  C5, as stated: no two notification entries ever share a key. Two notifications added
  while the clock shows the same millisecond get the same key.
\<close>

theorem notification_keys_counterexample:
  "reducers sample_tags 5 sample_state
     (Action (NOTIFICATION_ADD_WARN sample_tags) (StrV ''first'')) =
     Inr (sample_state\<lparr>app := (app sample_state)\<lparr>notifications :=
            [\<lparr>key = ''5'', kind = ''warning'', message = ''first''\<rparr>]\<rparr>\<rparr>) \<and>
   reducers sample_tags 5
     (sample_state\<lparr>app := (app sample_state)\<lparr>notifications :=
            [\<lparr>key = ''5'', kind = ''warning'', message = ''first''\<rparr>]\<rparr>\<rparr>)
     (Action (NOTIFICATION_ADD_ERROR sample_tags) (StrV ''second'')) =
     Inr (sample_state\<lparr>app := (app sample_state)\<lparr>notifications :=
            [\<lparr>key = ''5'', kind = ''warning'', message = ''first''\<rparr>,
             \<lparr>key = ''5'', kind = ''error'', message = ''second''\<rparr>]\<rparr>\<rparr>) \<and>
   \<not> distinct (map key
          [\<lparr>key = ''5'', kind = ''warning'', message = ''first''\<rparr>,
           \<lparr>key = ''5'', kind = ''error'', message = ''second''\<rparr>])"
  by (simp add: reducers_def notificationReducer_def addNotification_def sample_tags_def
        sample_state_def HID_ACTIONS_def toString_def decimal.simps digit_def)

text \<open>What one step of the reducer can do to the notification list.\<close>

lemma notifications_cases:
  assumes "reducers T now s a = Inr s'"
  shows "notifications (app s') = notifications (app s)
       \<or> (\<exists>k m. type a \<in> set (clock_tags T) \<and>
                  notifications (app s') =
                    notifications (app s) @ [\<lparr>key = toString now, kind = k, message = m\<rparr>])
       \<or> (\<exists>k. type a = NOTIFICATION_REMOVE T \<and> val a = StrV k \<and>
                notifications (app s') =
                  filter (\<lambda>item. key item \<noteq> k) (notifications (app s)))"
proof (cases "namespace_of T (type a)")
  case None
  with assms show ?thesis by (simp add: reducers_route)
next
  case (Some n)
  show ?thesis
  proof (cases "n = Notification")
    case True
    with Some assms have "notificationReducer T now a s = Inr s'"
      by (simp add: reducers_route)
    then show ?thesis
      by (auto simp: notificationReducer_def addNotification_def clock_tags_def
            split: if_splits payload.splits)
  next
    case False
    have "edits_within (Some n) s s'"
      using reducers_route_edits[OF assms] Some by simp
    with False have "notifications (app s') = notifications (app s)"
      by (cases n) (auto elim: ssubst)
    then show ?thesis by simp
  qed
qed

text \<open>
  C5, amended: every step of the reducer leaves the notification list as it is, or
  appends one entry whose key is the decimal print of the clock reading of that step, or
  is \<open>NOTIFICATION_REMOVE\<close> and drops every entry whose key is the payload. So an entry is
  keyed by its creation timestamp, only a dismissal with its key removes it, and the keys
  stay pairwise distinct as long as no entry is added at a clock reading whose print is
  already the key of an entry in the list.
\<close>

theorem notifications_step:
  assumes "reducers T now s a = Inr s'"
  shows "(notifications (app s') = notifications (app s)
          \<or> (\<exists>k m. type a \<in> set (clock_tags T) \<and>
                  notifications (app s') =
                    notifications (app s) @ [\<lparr>key = toString now, kind = k, message = m\<rparr>])
          \<or> (\<exists>k. type a = NOTIFICATION_REMOVE T \<and> val a = StrV k \<and>
                notifications (app s') =
                  filter (\<lambda>item. key item \<noteq> k) (notifications (app s))))
       \<and> (distinct (map key (notifications (app s))) \<and>
            toString now \<notin> set (map key (notifications (app s))) \<longrightarrow>
            distinct (map key (notifications (app s'))))"
proof (intro conjI impI)
  show "notifications (app s') = notifications (app s)
          \<or> (\<exists>k m. type a \<in> set (clock_tags T) \<and>
                  notifications (app s') =
                    notifications (app s) @ [\<lparr>key = toString now, kind = k, message = m\<rparr>])
          \<or> (\<exists>k. type a = NOTIFICATION_REMOVE T \<and> val a = StrV k \<and>
                notifications (app s') =
                  filter (\<lambda>item. key item \<noteq> k) (notifications (app s)))"
    by (rule notifications_cases[OF assms])
next
  assume fresh: "distinct (map key (notifications (app s))) \<and>
                 toString now \<notin> set (map key (notifications (app s)))"
  from notifications_cases[OF assms]
  consider "notifications (app s') = notifications (app s)"
    | k m where "notifications (app s') =
                   notifications (app s) @ [\<lparr>key = toString now, kind = k, message = m\<rparr>]"
    | k where "notifications (app s') =
                 filter (\<lambda>item. key item \<noteq> k) (notifications (app s))"
    by blast
  then show "distinct (map key (notifications (app s')))"
  proof cases
    case 1
    with fresh show ?thesis by simp
  next
    case 2
    with fresh show ?thesis by simp
  next
    case 3
    with fresh show ?thesis by (simp add: distinct_map_filter)
  qed
qed

theorem notifications_step_witness:
  "reducers sample_tags 9
     (sample_state\<lparr>app := (app sample_state)\<lparr>notifications :=
            [\<lparr>key = ''5'', kind = ''warning'', message = ''first''\<rparr>,
             \<lparr>key = ''7'', kind = ''info'', message = ''other''\<rparr>,
             \<lparr>key = ''5'', kind = ''error'', message = ''second''\<rparr>]\<rparr>\<rparr>)
     (Action (NOTIFICATION_REMOVE sample_tags) (StrV ''5'')) =
     Inr (sample_state\<lparr>app := (app sample_state)\<lparr>notifications :=
            [\<lparr>key = ''7'', kind = ''info'', message = ''other''\<rparr>]\<rparr>\<rparr>)"
  using notifications_step [of sample_tags 9
     "sample_state\<lparr>app := (app sample_state)\<lparr>notifications :=
            [\<lparr>key = ''5'', kind = ''warning'', message = ''first''\<rparr>,
             \<lparr>key = ''7'', kind = ''info'', message = ''other''\<rparr>,
             \<lparr>key = ''5'', kind = ''error'', message = ''second''\<rparr>]\<rparr>\<rparr>"
     "Action (NOTIFICATION_REMOVE sample_tags) (StrV ''5'')"
     "sample_state\<lparr>app := (app sample_state)\<lparr>notifications :=
            [\<lparr>key = ''7'', kind = ''info'', message = ''other''\<rparr>]\<rparr>\<rparr>"]
  by (simp add: reducers_def notificationReducer_def sample_tags_def sample_state_def
        HID_ACTIONS_def)

end
